theory Spec2Isabelle
  imports Main "HOL-Library.AList" "HOL-Library.Sublist" "HOL-Library.Word"
    "HOL-Library.Monad_Syntax"
begin

section \<open>Python values\<close>

text \<open>
  The inventory manager of \<^verbatim>\<open>inventory_manager.py\<close> is embedded with explicit state
  passing: every method takes the manager and returns the value the method returns
  together with the manager it leaves behind. Printing is left out.

  Strings are lists of 8-bit code points (the Latin-1 range of Python's \<^verbatim>\<open>str\<close>).
  A \<^verbatim>\<open>float\<close> is its IEEE-754 binary64 bit pattern; the program never computes
  with one. A naive \<^verbatim>\<open>datetime\<close> is a point of a linear time line, counted in
  microseconds: comparison is the order of the line, subtraction gives a
  \<^verbatim>\<open>timedelta\<close> counted in microseconds, and \<^verbatim>\<open>timedelta.days\<close> is the floor
  of that count divided by one day.
\<close>

type_synonym pyfloat = "64 word"

type_synonym datetime = int

type_synonym timedelta = int

definition day_us :: int where
  "day_us = 86400000000"

definition timedelta_days :: "timedelta \<Rightarrow> int" where
  "timedelta_days delta = delta div day_us"

datatype pynumber = PyInt int | PyFloat pyfloat

datatype pyexn = FileNotFoundError | KeyError | ValueError | TypeError | AttributeError

text \<open>
  The values \<^verbatim>\<open>json.load\<close> produces and \<^verbatim>\<open>json.dump\<close> accepts. An object is a
  Python \<^verbatim>\<open>dict\<close> with string keys, kept in insertion order.
\<close>

datatype json =
    JNull
  | JBool bool
  | JInt int
  | JFloat pyfloat
  | JStr string
  | JArr "json list"
  | JObj "(string \<times> json) list"

text \<open>Python's truth value of a JSON value, as the \<^verbatim>\<open>if\<close> of \<^verbatim>\<open>load_from_file\<close> tests it.\<close>

fun truthy :: "json \<Rightarrow> bool" where
  "truthy JNull = False"
| "truthy (JBool b) = b"
| "truthy (JInt i) = (i \<noteq> 0)"
| "truthy (JFloat f) = (f \<noteq> 0 \<and> f \<noteq> 0x8000000000000000)"
| "truthy (JStr s) = (s \<noteq> [])"
| "truthy (JArr xs) = (xs \<noteq> [])"
| "truthy (JObj kvs) = (kvs \<noteq> [])"

text \<open>
  A \<^verbatim>\<open>dict\<close> is an association list in insertion order: assignment to a present key
  replaces the value in place, assignment to a new key appends, \<^verbatim>\<open>del\<close> removes.
\<close>

abbreviation dict_contains :: "'k \<Rightarrow> ('k \<times> 'v) list \<Rightarrow> bool" where
  "dict_contains k d \<equiv> map_of d k \<noteq> None"

abbreviation dict_set :: "'k \<Rightarrow> 'v \<Rightarrow> ('k \<times> 'v) list \<Rightarrow> ('k \<times> 'v) list" where
  "dict_set \<equiv> AList.update"

abbreviation dict_del :: "'k \<Rightarrow> ('k \<times> 'v) list \<Rightarrow> ('k \<times> 'v) list" where
  "dict_del \<equiv> AList.delete"

abbreviation dict_values :: "('k \<times> 'v) list \<Rightarrow> 'v list" where
  "dict_values d \<equiv> map snd d"

text \<open>\<^verbatim>\<open>str.lower\<close> on code points below 256, and the substring test \<^verbatim>\<open>a in b\<close>.\<close>

definition lower_char :: "char \<Rightarrow> char" where
  "lower_char c =
     (let n = of_char c :: nat
      in if (0x41 \<le> n \<and> n \<le> 0x5A) \<or> (0xC0 \<le> n \<and> n \<le> 0xDE \<and> n \<noteq> 0xD7)
         then char_of (n + 0x20) else c)"

definition lower :: "string \<Rightarrow> string" where
  "lower s = map lower_char s"

fun str_in :: "string \<Rightarrow> string \<Rightarrow> bool" where
  "str_in q [] = (q = [])"
| "str_in q (c # cs) = (prefix q (c # cs) \<or> str_in q cs)"

section \<open>ProductCategory and Product\<close>

datatype ProductCategory =
    ORTOMOLECULAR
  | DERMOCOSMETICA
  | HOMEOPATIA
  | ALOPATICA
  | FITOTERAPIA
  | FLORALES
  | PROBIOTICOS
  | HORMONAS
  | MATERIA_PRIMA
  | OTROS

fun category_value :: "ProductCategory \<Rightarrow> string" where
  "category_value ORTOMOLECULAR = ''ortomolecular''"
| "category_value DERMOCOSMETICA = ''dermocosmetica''"
| "category_value HOMEOPATIA = ''homeopatia''"
| "category_value ALOPATICA = ''alopatica''"
| "category_value FITOTERAPIA = ''fitoterapia''"
| "category_value FLORALES = ''florales''"
| "category_value PROBIOTICOS = ''probioticos''"
| "category_value HORMONAS = ''hormonas''"
| "category_value MATERIA_PRIMA = ''materia_prima''"
| "category_value OTROS = ''otros''"

definition all_categories :: "ProductCategory list" where
  "all_categories =
     [ORTOMOLECULAR, DERMOCOSMETICA, HOMEOPATIA, ALOPATICA, FITOTERAPIA,
      FLORALES, PROBIOTICOS, HORMONAS, MATERIA_PRIMA, OTROS]"

text \<open>
  \<^verbatim>\<open>ProductCategory(v)\<close>: the member whose value equals \<^verbatim>\<open>v\<close>; \<open>None\<close> stands for the
  \<^verbatim>\<open>ValueError\<close> raised when there is none. Only a string can equal a member's value.
\<close>

fun category_of_value :: "json \<Rightarrow> ProductCategory option" where
  "category_of_value (JStr s) = find (\<lambda>c. category_value c = s) all_categories"
| "category_of_value _ = None"

record Product =
  id' :: string
  name :: string
  category :: ProductCategory
  description :: string
  stock_quantity :: int
  min_stock :: int
  unit_price :: pynumber
  expiration_date :: "datetime option"
  batch_number :: "string option"
  supplier :: "string option"
  storage_location :: "string option"

definition is_low_stock :: "Product \<Rightarrow> bool" where
  "is_low_stock p = (stock_quantity p \<le> min_stock p)"

text \<open>The methods that read the clock take the value of \<^verbatim>\<open>datetime.now()\<close> as \<open>now\<close>.\<close>

definition is_expired :: "datetime \<Rightarrow> Product \<Rightarrow> bool" where
  "is_expired now p =
     (case expiration_date p of None \<Rightarrow> False | Some d \<Rightarrow> now > d)"

definition days_until_expiration :: "datetime \<Rightarrow> Product \<Rightarrow> int option" where
  "days_until_expiration now p =
     (case expiration_date p of
        None \<Rightarrow> None
      | Some d \<Rightarrow> (let delta = d - now in Some (timedelta_days delta)))"

definition is_near_expiration :: "datetime \<Rightarrow> Product \<Rightarrow> int \<Rightarrow> bool" where
  "is_near_expiration now p days_threshold =
     (case days_until_expiration now p of
        None \<Rightarrow> False
      | Some days \<Rightarrow> 0 < days \<and> days \<le> days_threshold)"

fun json_of_number :: "pynumber \<Rightarrow> json" where
  "json_of_number (PyInt i) = JInt i"
| "json_of_number (PyFloat f) = JFloat f"

fun json_of_optional_str :: "string option \<Rightarrow> json" where
  "json_of_optional_str None = JNull"
| "json_of_optional_str (Some s) = JStr s"

text \<open>
  \<^verbatim>\<open>to_dict\<close>: the fields in declaration order, the category as its value and the
  expiration date, when set, as \<^verbatim>\<open>isoformat()\<close>. The library function
  \<^verbatim>\<open>datetime.isoformat\<close> is the parameter \<open>isoformat\<close>.
\<close>

definition to_dict :: "(datetime \<Rightarrow> string) \<Rightarrow> Product \<Rightarrow> json" where
  "to_dict isoformat p =
     JObj [(''id'', JStr (id' p)),
           (''name'', JStr (name p)),
           (''category'', JStr (category_value (category p))),
           (''description'', JStr (description p)),
           (''stock_quantity'', JInt (stock_quantity p)),
           (''min_stock'', JInt (min_stock p)),
           (''unit_price'', json_of_number (unit_price p)),
           (''expiration_date'',
              (case expiration_date p of None \<Rightarrow> JNull | Some d \<Rightarrow> JStr (isoformat d))),
           (''batch_number'', json_of_optional_str (batch_number p)),
           (''supplier'', json_of_optional_str (supplier p)),
           (''storage_location'', json_of_optional_str (storage_location p))]"

section \<open>InventoryManager\<close>

record InventoryManager =
  products :: "(string \<times> Product) list"
  transactions :: "json list"

definition init :: InventoryManager where
  "init = \<lparr>products = [], transactions = []\<rparr>"

definition log_transaction ::
  "(datetime \<Rightarrow> string) \<Rightarrow> datetime \<Rightarrow> string \<Rightarrow> string \<Rightarrow> int \<Rightarrow> string \<Rightarrow>
   InventoryManager \<Rightarrow> InventoryManager" where
  "log_transaction isoformat now action product_id quantity reason m =
     (let transaction =
        JObj [(''timestamp'', JStr (isoformat now)),
              (''action'', JStr action),
              (''product_id'', JStr product_id),
              (''quantity'', JInt quantity),
              (''reason'', JStr reason)]
      in m\<lparr>transactions := transactions m @ [transaction]\<rparr>)"

definition add_product ::
  "(datetime \<Rightarrow> string) \<Rightarrow> datetime \<Rightarrow> Product \<Rightarrow> InventoryManager \<Rightarrow>
   bool \<times> InventoryManager" where
  "add_product isoformat now product m =
     (if dict_contains (id' product) (products m) then (False, m)
      else
        (let m1 = m\<lparr>products := dict_set (id' product) product (products m)\<rparr>;
             m2 = log_transaction isoformat now ''ADD'' (id' product)
                    (stock_quantity product) [] m1
         in (True, m2)))"

definition remove_product ::
  "(datetime \<Rightarrow> string) \<Rightarrow> datetime \<Rightarrow> string \<Rightarrow> InventoryManager \<Rightarrow>
   bool \<times> InventoryManager" where
  "remove_product isoformat now product_id m =
     (if \<not> dict_contains product_id (products m) then (False, m)
      else
        (let m1 = m\<lparr>products := dict_del product_id (products m)\<rparr>;
             m2 = log_transaction isoformat now ''REMOVE'' product_id 0 [] m1
         in (True, m2)))"

definition update_stock ::
  "(datetime \<Rightarrow> string) \<Rightarrow> datetime \<Rightarrow> string \<Rightarrow> int \<Rightarrow> string \<Rightarrow> InventoryManager \<Rightarrow>
   bool \<times> InventoryManager" where
  "update_stock isoformat now product_id quantity_change reason m =
     (case map_of (products m) product_id of
        None \<Rightarrow> (False, m)
      | Some product \<Rightarrow>
          (let new_quantity = stock_quantity product + quantity_change
           in if new_quantity < 0 then (False, m)
              else
                (let m1 = m\<lparr>products :=
                            dict_set product_id (product\<lparr>stock_quantity := new_quantity\<rparr>)
                              (products m)\<rparr>;
                     m2 = log_transaction isoformat now ''UPDATE'' product_id
                            quantity_change reason m1
                 in (True, m2))))"

definition get_product :: "string \<Rightarrow> InventoryManager \<Rightarrow> Product option" where
  "get_product product_id m = map_of (products m) product_id"

definition search_products :: "string \<Rightarrow> InventoryManager \<Rightarrow> Product list" where
  "search_products query m =
     (let query_lower = lower query
      in filter (\<lambda>product. str_in query_lower (lower (name product)) \<or>
                           str_in query_lower (lower (description product)))
           (dict_values (products m)))"

definition get_products_by_category :: "ProductCategory \<Rightarrow> InventoryManager \<Rightarrow> Product list" where
  "get_products_by_category c m =
     filter (\<lambda>product. category product = c) (dict_values (products m))"

definition get_low_stock_products :: "InventoryManager \<Rightarrow> Product list" where
  "get_low_stock_products m = filter is_low_stock (dict_values (products m))"

definition get_expired_products :: "datetime \<Rightarrow> InventoryManager \<Rightarrow> Product list" where
  "get_expired_products now m = filter (is_expired now) (dict_values (products m))"

definition get_near_expiration_products ::
  "datetime \<Rightarrow> int \<Rightarrow> InventoryManager \<Rightarrow> Product list" where
  "get_near_expiration_products now days_threshold m =
     filter (\<lambda>product. is_near_expiration now product days_threshold)
       (dict_values (products m))"

section \<open>Persistence\<close>

text \<open>
  The file system maps a path to the JSON document stored there. \<^verbatim>\<open>json.dump\<close>
  followed by \<^verbatim>\<open>json.load\<close> gives back the value that was dumped, so a file holds the
  value itself; files that are not JSON text are not modelled.
\<close>

type_synonym filesystem = "string \<rightharpoonup> json"

definition save_to_file ::
  "(datetime \<Rightarrow> string) \<Rightarrow> string \<Rightarrow> InventoryManager \<Rightarrow> filesystem \<Rightarrow> filesystem" where
  "save_to_file isoformat filename m fs =
     (let data = JObj [(''products'', JArr (map (to_dict isoformat) (dict_values (products m)))),
                       (''transactions'', JArr (transactions m))]
      in fs(filename \<mapsto> data))"

text \<open>
  What a statement of \<^verbatim>\<open>load_from_file\<close> does: it completes with a value, it raises,
  or it builds an object that the model has no value for. Python checks no
  annotation, so \<^verbatim>\<open>Product(**product_data)\<close> accepts a document whose
  \<^verbatim>\<open>stock_quantity\<close> is a string; the record \<^typ>\<open>Product\<close> has no such
  inhabitant, and the model says \<open>Unmodelled\<close> there instead of inventing a result.
\<close>

datatype 'a outcome = Returns 'a | Raises pyexn | Unmodelled

definition field_names :: "string list" where
  "field_names =
     [''id'', ''name'', ''category'', ''description'', ''stock_quantity'', ''min_stock'',
      ''unit_price'', ''expiration_date'', ''batch_number'', ''supplier'',
      ''storage_location'']"

definition required_fields :: "string list" where
  "required_fields =
     [''id'', ''name'', ''category'', ''description'', ''stock_quantity'', ''min_stock'',
      ''unit_price'']"

fun str_field :: "json option \<Rightarrow> string option" where
  "str_field (Some (JStr s)) = Some s"
| "str_field _ = None"

fun int_field :: "json option \<Rightarrow> int option" where
  "int_field (Some (JInt i)) = Some i"
| "int_field _ = None"

fun number_field :: "json option \<Rightarrow> pynumber option" where
  "number_field (Some (JInt i)) = Some (PyInt i)"
| "number_field (Some (JFloat f)) = Some (PyFloat f)"
| "number_field _ = None"

fun optional_str_field :: "json option \<Rightarrow> string option option" where
  "optional_str_field None = Some None"
| "optional_str_field (Some JNull) = Some None"
| "optional_str_field (Some (JStr s)) = Some (Some s)"
| "optional_str_field _ = None"

text \<open>
  The expiration date of a product read from a document. The argument is
  \<^verbatim>\<open>product_data.get('expiration_date')\<close>, \<open>None\<close> when the key is missing. A value
  that is not true is left as it is; a true one goes to \<^verbatim>\<open>datetime.fromisoformat\<close>
  (the parameter \<open>fromisoformat\<close>, \<open>None\<close> for its \<^verbatim>\<open>ValueError\<close>), which raises
  \<^verbatim>\<open>TypeError\<close> on anything but a string.
\<close>

fun expiration_field ::
  "(string \<Rightarrow> datetime option) \<Rightarrow> json option \<Rightarrow> datetime option outcome" where
  "expiration_field fromisoformat None = Returns None"
| "expiration_field fromisoformat (Some JNull) = Returns None"
| "expiration_field fromisoformat (Some (JStr s)) =
     (if s = [] then Unmodelled
      else (case fromisoformat s of None \<Rightarrow> Raises ValueError | Some d \<Rightarrow> Returns (Some d)))"
| "expiration_field fromisoformat (Some v) = (if truthy v then Raises TypeError else Unmodelled)"

text \<open>
  The body of the loop of \<^verbatim>\<open>load_from_file\<close> up to the constructor call, in the
  order of the source: the category (a \<^verbatim>\<open>KeyError\<close> when missing, a
  \<^verbatim>\<open>ValueError\<close> when unknown), the expiration date, then
  \<^verbatim>\<open>Product(**product_data)\<close>, which raises \<^verbatim>\<open>TypeError\<close> on an unknown keyword or
  a missing required one. Subscripting anything but a \<^verbatim>\<open>dict\<close> with a string raises
  \<^verbatim>\<open>TypeError\<close>.
\<close>

definition build_product :: "(string \<Rightarrow> datetime option) \<Rightarrow> json \<Rightarrow> Product outcome" where
  "build_product fromisoformat product_data =
     (case product_data of
        JObj kvs \<Rightarrow>
          (case map_of kvs ''category'' of
             None \<Rightarrow> Raises KeyError
           | Some cv \<Rightarrow>
               (case category_of_value cv of
                  None \<Rightarrow> Raises ValueError
                | Some cat \<Rightarrow>
                    (case expiration_field fromisoformat (map_of kvs ''expiration_date'') of
                       Raises e \<Rightarrow> Raises e
                     | Unmodelled \<Rightarrow>
                         (if list_all (\<lambda>k. k \<in> set field_names) (map fst kvs) \<and>
                             list_all (\<lambda>k. k \<in> set (map fst kvs)) required_fields
                          then Unmodelled else Raises TypeError)
                     | Returns exp \<Rightarrow>
                         (if list_all (\<lambda>k. k \<in> set field_names) (map fst kvs) \<and>
                             list_all (\<lambda>k. k \<in> set (map fst kvs)) required_fields
                          then
                            (case
                               do {
                                 i \<leftarrow> str_field (map_of kvs ''id'');
                                 n \<leftarrow> str_field (map_of kvs ''name'');
                                 d \<leftarrow> str_field (map_of kvs ''description'');
                                 q \<leftarrow> int_field (map_of kvs ''stock_quantity'');
                                 ms \<leftarrow> int_field (map_of kvs ''min_stock'');
                                 up \<leftarrow> number_field (map_of kvs ''unit_price'');
                                 b \<leftarrow> optional_str_field (map_of kvs ''batch_number'');
                                 su \<leftarrow> optional_str_field (map_of kvs ''supplier'');
                                 sl \<leftarrow> optional_str_field (map_of kvs ''storage_location'');
                                 Some \<lparr>id' = i, name = n, category = cat, description = d,
                                       stock_quantity = q, min_stock = ms, unit_price = up,
                                       expiration_date = exp, batch_number = b, supplier = su,
                                       storage_location = sl\<rparr>
                               }
                             of None \<Rightarrow> Unmodelled | Some product \<Rightarrow> Returns product)
                          else Raises TypeError))))
      | _ \<Rightarrow> Raises TypeError)"

text \<open>
  The loop over the products of the document, on the dictionary built so far. It stops
  at the first exception and hands back the dictionary as it then is, with the
  exception; \<open>None\<close> when a product is \<open>Unmodelled\<close>.
\<close>

fun load_products ::
  "(string \<Rightarrow> datetime option) \<Rightarrow> json list \<Rightarrow> (string \<times> Product) list \<Rightarrow>
   ((string \<times> Product) list \<times> pyexn option) option" where
  "load_products fromisoformat [] d = Some (d, None)"
| "load_products fromisoformat (product_data # rest) d =
     (case build_product fromisoformat product_data of
        Raises e \<Rightarrow> Some (d, Some e)
      | Unmodelled \<Rightarrow> None
      | Returns product \<Rightarrow> load_products fromisoformat rest (dict_set (id' product) product d))"

text \<open>
  What a \<^verbatim>\<open>for\<close> loop iterates over: the elements of a list, the characters of a
  string, the keys of a dictionary; \<open>None\<close> for the \<^verbatim>\<open>TypeError\<close> on a value that is
  not iterable.
\<close>

fun iter_json :: "json \<Rightarrow> json list option" where
  "iter_json (JArr xs) = Some xs"
| "iter_json (JStr s) = Some (map (\<lambda>c. JStr [c]) s)"
| "iter_json (JObj kvs) = Some (map (\<lambda>kv. JStr (fst kv)) kvs)"
| "iter_json _ = None"

text \<open>
  \<^verbatim>\<open>data.get('transactions', [])\<close> as the new transaction list; \<open>None\<close> when the
  document holds something other than a list there (\<open>Unmodelled\<close>: the attribute would
  no longer be a list).
\<close>

fun transactions_field :: "json option \<Rightarrow> json list option" where
  "transactions_field None = Some []"
| "transactions_field (Some (JArr ts)) = Some ts"
| "transactions_field _ = None"

text \<open>
  \<^verbatim>\<open>load_from_file\<close>. A missing file is the \<^verbatim>\<open>FileNotFoundError\<close> branch. Otherwise
  \<^verbatim>\<open>self.products = {}\<close> runs first; \<^verbatim>\<open>data.get\<close> raises \<^verbatim>\<open>AttributeError\<close>
  when the document is not an object; every exception ends in one of the two
  \<^verbatim>\<open>except\<close> branches, which return \<^verbatim>\<open>False\<close>. The result is \<open>None\<close> when the
  document is \<open>Unmodelled\<close>.
\<close>

definition load_from_file ::
  "(string \<Rightarrow> datetime option) \<Rightarrow> string \<Rightarrow> filesystem \<Rightarrow> InventoryManager \<Rightarrow>
   (bool \<times> InventoryManager) option" where
  "load_from_file fromisoformat filename fs m =
     (case fs filename of
        None \<Rightarrow> Some (False, m)
      | Some data \<Rightarrow>
          (let m1 = m\<lparr>products := []\<rparr>
           in case data of
                JObj kvs \<Rightarrow>
                  (case iter_json (case map_of kvs ''products'' of None \<Rightarrow> JArr [] | Some v \<Rightarrow> v) of
                     None \<Rightarrow> Some (False, m1)
                   | Some items \<Rightarrow>
                       (case load_products fromisoformat items (products m1) of
                          None \<Rightarrow> None
                        | Some (d, Some e) \<Rightarrow> Some (False, m1\<lparr>products := d\<rparr>)
                        | Some (d, None) \<Rightarrow>
                            (case transactions_field (map_of kvs ''transactions'') of
                               None \<Rightarrow> None
                             | Some ts \<Rightarrow>
                                 Some (True, m1\<lparr>products := d, transactions := ts\<rparr>))))
              | _ \<Rightarrow> Some (False, m1)))"

section \<open>Sequences of operations\<close>

datatype operation =
    Add_product Product
  | Remove_product string
  | Update_stock string int string

text \<open>An operation with the clock reading at which it runs.\<close>

fun apply_operation ::
  "(datetime \<Rightarrow> string) \<Rightarrow> datetime \<times> operation \<Rightarrow> InventoryManager \<Rightarrow> InventoryManager" where
  "apply_operation isoformat (now, Add_product p) m = snd (add_product isoformat now p m)"
| "apply_operation isoformat (now, Remove_product k) m = snd (remove_product isoformat now k m)"
| "apply_operation isoformat (now, Update_stock k delta reason) m =
     snd (update_stock isoformat now k delta reason m)"

fun run ::
  "(datetime \<Rightarrow> string) \<Rightarrow> (datetime \<times> operation) list \<Rightarrow> InventoryManager \<Rightarrow>
   InventoryManager" where
  "run isoformat [] m = m"
| "run isoformat (x # xs) m = run isoformat xs (apply_operation isoformat x m)"

text \<open>
  The shape of the product dictionary that the operations build: a \<^verbatim>\<open>dict\<close> has
  each key once, and every product is stored under its own \<^verbatim>\<open>id\<close>.
\<close>

definition dict_inv :: "(string \<times> Product) list \<Rightarrow> bool" where
  "dict_inv d = (distinct (map fst d) \<and> list_all (\<lambda>kv. fst kv = id' (snd kv)) d)"

definition nonneg_stock :: "(string \<times> Product) list \<Rightarrow> bool" where
  "nonneg_stock d = list_all (\<lambda>kv. 0 \<le> stock_quantity (snd kv)) d"

fun nonneg_operation :: "datetime \<times> operation \<Rightarrow> bool" where
  "nonneg_operation (now, Add_product p) = (0 \<le> stock_quantity p)"
| "nonneg_operation (now, Remove_product k) = True"
| "nonneg_operation (now, Update_stock k delta reason) = True"

section \<open>Sample data\<close>

text \<open>
  Two products of \<^verbatim>\<open>example_usage\<close> (descriptions in ASCII), a manager holding both,
  and the renderings of the dates that occur in them: \<open>sample_isoformat\<close> and
  \<open>sample_fromisoformat\<close> stand for \<^verbatim>\<open>isoformat\<close> and \<^verbatim>\<open>fromisoformat\<close> on
  these dates, counted from 1970-01-01T00:00:00.
\<close>

definition new_year_2026 :: datetime where
  "new_year_2026 = 1767225600000000"

definition sample_isoformat :: "datetime \<Rightarrow> string" where
  "sample_isoformat d =
     (if d = new_year_2026 then ''2026-01-01T00:00:00'' else ''1970-01-01T00:00:00'')"

definition sample_fromisoformat :: "string \<Rightarrow> datetime option" where
  "sample_fromisoformat s =
     (if s = ''2026-01-01T00:00:00'' then Some new_year_2026
      else if s = ''1970-01-01T00:00:00'' then Some 0
      else None)"

definition vitamina :: Product where
  "vitamina =
     \<lparr>id' = ''PROD001'', name = ''Vitamina C 1000mg'', category = ORTOMOLECULAR,
      description = ''Acido ascorbico de alta pureza'', stock_quantity = 50, min_stock = 10,
      unit_price = PyFloat 0x40A3880000000000, expiration_date = None,
      batch_number = Some ''VC2024-001'', supplier = Some ''Laboratorio XYZ'',
      storage_location = Some ''Estante A-1''\<rparr>"

definition arnica :: Product where
  "arnica =
     \<lparr>id' = ''PROD003'', name = ''Arnica Montana 30CH'', category = HOMEOPATIA,
      description = ''Globulos homeopaticos'', stock_quantity = 25, min_stock = 5,
      unit_price = PyInt 1800, expiration_date = Some new_year_2026,
      batch_number = Some ''AM2024-003'', supplier = None, storage_location = None\<rparr>"

definition add_transaction :: "string \<Rightarrow> int \<Rightarrow> json" where
  "add_transaction product_id quantity =
     JObj [(''timestamp'', JStr ''1970-01-01T00:00:00''), (''action'', JStr ''ADD''),
           (''product_id'', JStr product_id), (''quantity'', JInt quantity),
           (''reason'', JStr [])]"

definition sample_manager :: InventoryManager where
  "sample_manager =
     \<lparr>products = [(''PROD001'', vitamina), (''PROD003'', arnica)],
      transactions = [add_transaction ''PROD001'' 50, add_transaction ''PROD003'' 25]\<rparr>"

text \<open>A document with no products and no transactions.\<close>

definition empty_document :: json where
  "empty_document = JObj [(''products'', JArr []), (''transactions'', JArr [])]"

text \<open>A document whose second product carries a category tag outside the enumeration.\<close>

definition bad_category_document :: json where
  "bad_category_document =
     JObj [(''products'',
            JArr [to_dict sample_isoformat arnica,
                  JObj [(''id'', JStr ''PROD009''), (''name'', JStr ''Collar''),
                        (''category'', JStr ''veterinaria''), (''description'', JStr []),
                        (''stock_quantity'', JInt 1), (''min_stock'', JInt 0),
                        (''unit_price'', JInt 100), (''expiration_date'', JNull),
                        (''batch_number'', JNull), (''supplier'', JNull),
                        (''storage_location'', JNull)]]),
           (''transactions'', JArr [])]"

section \<open>Dictionaries\<close>

lemma dict_set_fresh:
  "k \<notin> fst ` set d \<Longrightarrow> dict_set k v d = d @ [(k, v)]"
  by (induction d) auto

lemma list_all_dict_set:
  "list_all P d \<Longrightarrow> P (k, v) \<Longrightarrow> list_all P (dict_set k v d)"
  by (induction d) auto

lemma list_all_dict_del:
  "list_all P d \<Longrightarrow> list_all P (dict_del k d)"
  by (induction d) auto

lemma dict_inv_set:
  "dict_inv d \<Longrightarrow> k = id' p \<Longrightarrow> dict_inv (dict_set k p d)"
  by (simp add: dict_inv_def distinct_update list_all_dict_set)

lemma dict_inv_del:
  "dict_inv d \<Longrightarrow> dict_inv (dict_del k d)"
  by (simp add: dict_inv_def distinct_delete list_all_dict_del)

lemma dict_inv_lookup:
  "dict_inv d \<Longrightarrow> map_of d k = Some p \<Longrightarrow> k = id' p"
  by (auto simp: dict_inv_def list_all_iff dest: map_of_SomeD)

text \<open>The sample manager is what two calls of \<^verbatim>\<open>add_product\<close> build from an empty one.\<close>

lemma sample_manager_built:
  "run sample_isoformat [(0, Add_product vitamina), (0, Add_product arnica)] init
   = sample_manager"
  by (simp add: init_def add_product_def log_transaction_def sample_manager_def vitamina_def
      arnica_def sample_isoformat_def new_year_2026_def add_transaction_def)

section \<open>Stock updates\<close>

text \<open>
  C1. \<^verbatim>\<open>update_stock(id, delta, reason)\<close> returns false and leaves the manager as it
  was when \<open>id\<close> is absent or the stock would become negative. Otherwise it returns true,
  the product stored under \<open>id\<close> has its stock raised by \<open>delta\<close> and no other field
  changed, every other key and the order of the keys are as before, and the log has
  grown by exactly one \<^verbatim>\<open>UPDATE\<close> record holding \<open>delta\<close> and \<open>reason\<close>. Taking out
  the whole stock succeeds and leaves 0.
\<close>

theorem update_stock_spec:
  "((map_of (products m) k = None \<or>
      (\<exists>p. map_of (products m) k = Some p \<and> stock_quantity p + delta < 0))
     \<longrightarrow> update_stock fmt now k delta reason m = (False, m))
   \<and> (\<forall>p. map_of (products m) k = Some p \<and> 0 \<le> stock_quantity p + delta \<longrightarrow>
        (\<exists>m'. update_stock fmt now k delta reason m = (True, m')
           \<and> map_of (products m') k = Some (p\<lparr>stock_quantity := stock_quantity p + delta\<rparr>)
           \<and> (\<forall>k'. k' \<noteq> k \<longrightarrow> map_of (products m') k' = map_of (products m) k')
           \<and> map fst (products m') = map fst (products m)
           \<and> transactions m' = transactions m @
                [JObj [(''timestamp'', JStr (fmt now)), (''action'', JStr ''UPDATE''),
                       (''product_id'', JStr k), (''quantity'', JInt delta),
                       (''reason'', JStr reason)]]))
   \<and> (\<forall>p. map_of (products m) k = Some p \<and> delta = - stock_quantity p \<longrightarrow>
        fst (update_stock fmt now k delta reason m) \<and>
        map_option stock_quantity
          (map_of (products (snd (update_stock fmt now k delta reason m))) k) = Some 0)"
  by (intro conjI)
     (auto simp: update_stock_def log_transaction_def Let_def update_conv' update_keys
       split: option.splits dest: map_of_SomeD intro: rev_image_eqI)

theorem update_stock_spec_witness:
  "update_stock sample_isoformat 0 ''PROD404'' 1 ''Compra'' sample_manager
     = (False, sample_manager)
   \<and> update_stock sample_isoformat 0 ''PROD003'' (- 26) ''Venta'' sample_manager
     = (False, sample_manager)
   \<and> (\<exists>m'. update_stock sample_isoformat 0 ''PROD003'' (- 25) ''Venta'' sample_manager
          = (True, m')
        \<and> map_of (products m') ''PROD003'' = Some (arnica\<lparr>stock_quantity := 0\<rparr>)
        \<and> map_of (products m') ''PROD001'' = Some vitamina
        \<and> map fst (products m') = [''PROD001'', ''PROD003'']
        \<and> transactions m' = transactions sample_manager @
             [JObj [(''timestamp'', JStr ''1970-01-01T00:00:00''), (''action'', JStr ''UPDATE''),
                    (''product_id'', JStr ''PROD003''), (''quantity'', JInt (- 25)),
                    (''reason'', JStr ''Venta'')]])"
proof -
  have absent: "map_of (products sample_manager) ''PROD404'' = None"
    by (simp add: sample_manager_def)
  have stored: "map_of (products sample_manager) ''PROD003'' = Some arnica"
    by (simp add: sample_manager_def)
  have other: "map_of (products sample_manager) ''PROD001'' = Some vitamina"
    by (simp add: sample_manager_def)
  have stock: "stock_quantity arnica = 25"
    by (simp add: arnica_def)
  have keys: "map fst (products sample_manager) = [''PROD001'', ''PROD003'']"
    by (simp add: sample_manager_def)
  have time: "sample_isoformat 0 = ''1970-01-01T00:00:00''"
    by (simp add: sample_isoformat_def new_year_2026_def)
  have first: "update_stock sample_isoformat 0 ''PROD404'' 1 ''Compra'' sample_manager
                 = (False, sample_manager)"
    using update_stock_spec [of sample_manager "''PROD404''" 1 sample_isoformat 0 "''Compra''"]
    by (simp add: absent)
  have second: "update_stock sample_isoformat 0 ''PROD003'' (- 26) ''Venta'' sample_manager
                  = (False, sample_manager)"
    using update_stock_spec [of sample_manager "''PROD003''" "- 26" sample_isoformat 0 "''Venta''"]
    by (simp add: stored stock)
  have "\<exists>m'. update_stock sample_isoformat 0 ''PROD003'' (- 25) ''Venta'' sample_manager
            = (True, m')
          \<and> map_of (products m') ''PROD003''
              = Some (arnica\<lparr>stock_quantity := stock_quantity arnica + - 25\<rparr>)
          \<and> (\<forall>k'. k' \<noteq> ''PROD003'' \<longrightarrow>
                map_of (products m') k' = map_of (products sample_manager) k')
          \<and> map fst (products m') = map fst (products sample_manager)
          \<and> transactions m' = transactions sample_manager @
               [JObj [(''timestamp'', JStr (sample_isoformat 0)), (''action'', JStr ''UPDATE''),
                      (''product_id'', JStr ''PROD003''), (''quantity'', JInt (- 25)),
                      (''reason'', JStr ''Venta'')]]"
    by (rule update_stock_spec [of sample_manager "''PROD003''" "- 25" sample_isoformat 0
          "''Venta''", THEN conjunct2, THEN conjunct1, rule_format, of arnica])
       (simp add: stored stock)
  then obtain m' where
      r: "update_stock sample_isoformat 0 ''PROD003'' (- 25) ''Venta'' sample_manager = (True, m')"
    and s: "map_of (products m') ''PROD003''
              = Some (arnica\<lparr>stock_quantity := stock_quantity arnica + - 25\<rparr>)"
    and o: "\<forall>k'. k' \<noteq> ''PROD003'' \<longrightarrow>
                map_of (products m') k' = map_of (products sample_manager) k'"
    and ks: "map fst (products m') = map fst (products sample_manager)"
    and t: "transactions m' = transactions sample_manager @
               [JObj [(''timestamp'', JStr (sample_isoformat 0)), (''action'', JStr ''UPDATE''),
                      (''product_id'', JStr ''PROD003''), (''quantity'', JInt (- 25)),
                      (''reason'', JStr ''Venta'')]]"
    by (elim exE conjE)
  have o': "map_of (products m') ''PROD001'' = Some vitamina"
    using o other by simp
  have third: "update_stock sample_isoformat 0 ''PROD003'' (- 25) ''Venta'' sample_manager
          = (True, m')
        \<and> map_of (products m') ''PROD003'' = Some (arnica\<lparr>stock_quantity := 0\<rparr>)
        \<and> map_of (products m') ''PROD001'' = Some vitamina
        \<and> map fst (products m') = [''PROD001'', ''PROD003'']
        \<and> transactions m' = transactions sample_manager @
             [JObj [(''timestamp'', JStr ''1970-01-01T00:00:00''), (''action'', JStr ''UPDATE''),
                    (''product_id'', JStr ''PROD003''), (''quantity'', JInt (- 25)),
                    (''reason'', JStr ''Venta'')]]"
    using r s o' ks t by (simp add: stock keys time)
  show ?thesis
  proof (intro conjI)
    show "update_stock sample_isoformat 0 ''PROD404'' 1 ''Compra'' sample_manager
            = (False, sample_manager)"
      by (rule first)
    show "update_stock sample_isoformat 0 ''PROD003'' (- 26) ''Venta'' sample_manager
            = (False, sample_manager)"
      by (rule second)
    show "\<exists>m'. update_stock sample_isoformat 0 ''PROD003'' (- 25) ''Venta'' sample_manager
          = (True, m')
        \<and> map_of (products m') ''PROD003'' = Some (arnica\<lparr>stock_quantity := 0\<rparr>)
        \<and> map_of (products m') ''PROD001'' = Some vitamina
        \<and> map fst (products m') = [''PROD001'', ''PROD003'']
        \<and> transactions m' = transactions sample_manager @
             [JObj [(''timestamp'', JStr ''1970-01-01T00:00:00''), (''action'', JStr ''UPDATE''),
                    (''product_id'', JStr ''PROD003''), (''quantity'', JInt (- 25)),
                    (''reason'', JStr ''Venta'')]]"
      by (rule exI [where x = m']) (rule third)
  qed
qed

lemma add_product_nonneg:
  "nonneg_stock (products m) \<Longrightarrow> 0 \<le> stock_quantity p \<Longrightarrow>
   nonneg_stock (products (snd (add_product fmt now p m)))"
  by (simp add: add_product_def log_transaction_def nonneg_stock_def list_all_dict_set)

lemma remove_product_nonneg:
  "nonneg_stock (products m) \<Longrightarrow> nonneg_stock (products (snd (remove_product fmt now k m)))"
  by (simp add: remove_product_def log_transaction_def nonneg_stock_def list_all_dict_del)

lemma update_stock_nonneg:
  "nonneg_stock (products m) \<Longrightarrow>
   nonneg_stock (products (snd (update_stock fmt now k delta reason m)))"
  by (simp add: update_stock_def log_transaction_def nonneg_stock_def list_all_dict_set Let_def
      split: option.splits)

lemma apply_operation_nonneg:
  "nonneg_stock (products m) \<Longrightarrow> nonneg_operation x \<Longrightarrow>
   nonneg_stock (products (apply_operation fmt x m))"
  by (cases x rule: nonneg_operation.cases)
     (simp_all add: add_product_nonneg remove_product_nonneg update_stock_nonneg)

lemma run_nonneg:
  "nonneg_stock (products m) \<Longrightarrow> list_all nonneg_operation ops \<Longrightarrow>
   nonneg_stock (products (run fmt ops m))"
  by (induction ops arbitrary: m) (simp_all add: apply_operation_nonneg)

lemma update_stock_stored_nonneg:
  "fst (update_stock fmt now k delta reason m) \<Longrightarrow>
   \<exists>p. map_of (products (snd (update_stock fmt now k delta reason m))) k = Some p \<and>
       0 \<le> stock_quantity p"
  by (auto simp: update_stock_def log_transaction_def Let_def update_conv'
      split: option.splits if_splits)

text \<open>
  C2. Non-negative stock is an invariant of the update operations: when every stored
  product has a stock of at least 0 and every product handed to \<^verbatim>\<open>add_product\<close> has
  one too, then so has every stored product after any sequence of \<^verbatim>\<open>add_product\<close>,
  \<^verbatim>\<open>remove_product\<close> and \<^verbatim>\<open>update_stock\<close>. Whatever the state, a successful
  \<^verbatim>\<open>update_stock\<close> leaves a stock of at least 0 in the product it changed.
\<close>

theorem nonneg_stock_invariant:
  "(nonneg_stock (products m) \<and> list_all nonneg_operation ops \<longrightarrow>
      nonneg_stock (products (run fmt ops m)))
   \<and> (fst (update_stock fmt now k delta reason m) \<longrightarrow>
        (\<exists>p. map_of (products (snd (update_stock fmt now k delta reason m))) k = Some p \<and>
             0 \<le> stock_quantity p))"
  using run_nonneg update_stock_stored_nonneg by blast

theorem nonneg_stock_invariant_witness:
  "nonneg_stock (products init)
   \<and> list_all nonneg_operation
       [(0, Add_product arnica), (0, Update_stock ''PROD003'' (- 20) ''Venta''),
        (0, Update_stock ''PROD003'' (- 10) ''Venta''), (0, Remove_product ''PROD001'')]
   \<and> nonneg_stock (products (run sample_isoformat
       [(0, Add_product arnica), (0, Update_stock ''PROD003'' (- 20) ''Venta''),
        (0, Update_stock ''PROD003'' (- 10) ''Venta''), (0, Remove_product ''PROD001'')] init))
   \<and> fst (update_stock sample_isoformat 0 ''PROD003'' (- 20) ''Venta'' sample_manager)
   \<and> (\<exists>p. map_of (products (snd (update_stock sample_isoformat 0 ''PROD003'' (- 20) ''Venta''
             sample_manager))) ''PROD003'' = Some p \<and> 0 \<le> stock_quantity p)"
proof -
  have start: "nonneg_stock (products init)"
    by (simp add: init_def nonneg_stock_def)
  have ops: "list_all nonneg_operation
       [(0, Add_product arnica), (0, Update_stock ''PROD003'' (- 20) ''Venta''),
        (0, Update_stock ''PROD003'' (- 10) ''Venta''), (0, Remove_product ''PROD001'')]"
    by (simp add: arnica_def)
  have ok: "fst (update_stock sample_isoformat 0 ''PROD003'' (- 20) ''Venta'' sample_manager)"
    by (simp add: update_stock_def sample_manager_def arnica_def log_transaction_def)
  show ?thesis
    using start ops ok
      nonneg_stock_invariant [of init
        "[(0, Add_product arnica), (0, Update_stock ''PROD003'' (- 20) ''Venta''),
          (0, Update_stock ''PROD003'' (- 10) ''Venta''), (0, Remove_product ''PROD001'')]"
        sample_isoformat 0 "''PROD003''" "- 20" "''Venta''"]
      nonneg_stock_invariant [of sample_manager "[]" sample_isoformat 0 "''PROD003''" "- 20"
        "''Venta''"]
    by simp
qed

section \<open>Adding products\<close>

text \<open>
  C5. \<^verbatim>\<open>add_product(p)\<close> returns false and leaves the manager as it was when the id of
  \<open>p\<close> is already a key. Otherwise it returns true, \<open>p\<close> is appended to the dictionary
  under its id, and the log has grown by exactly one \<^verbatim>\<open>ADD\<close> record whose quantity is
  the stock of \<open>p\<close>.
\<close>

theorem add_product_spec:
  "(dict_contains (id' p) (products m) \<longrightarrow> add_product fmt now p m = (False, m))
   \<and> (\<not> dict_contains (id' p) (products m) \<longrightarrow>
        (\<exists>m'. add_product fmt now p m = (True, m')
           \<and> products m' = products m @ [(id' p, p)]
           \<and> transactions m' = transactions m @
                [JObj [(''timestamp'', JStr (fmt now)), (''action'', JStr ''ADD''),
                       (''product_id'', JStr (id' p)), (''quantity'', JInt (stock_quantity p)),
                       (''reason'', JStr [])]]))"
  by (auto simp: add_product_def log_transaction_def Let_def dict_set_fresh map_of_eq_None_iff)

theorem add_product_spec_witness:
  "dict_contains (id' arnica) (products sample_manager)
   \<and> add_product sample_isoformat 0 arnica sample_manager = (False, sample_manager)
   \<and> \<not> dict_contains (id' arnica) (products init)
   \<and> add_product sample_isoformat 0 arnica init
       = (True, \<lparr>products = [(''PROD003'', arnica)],
                 transactions = [add_transaction ''PROD003'' 25]\<rparr>)"
proof -
  have present: "dict_contains (id' arnica) (products sample_manager)"
    by (simp add: sample_manager_def arnica_def)
  have fresh: "\<not> dict_contains (id' arnica) (products init)"
    by (simp add: init_def)
  have time: "sample_isoformat 0 = ''1970-01-01T00:00:00''"
    by (simp add: sample_isoformat_def new_year_2026_def)
  have dup: "add_product sample_isoformat 0 arnica sample_manager = (False, sample_manager)"
    using add_product_spec [where p = arnica and m = sample_manager and fmt = sample_isoformat
        and now = 0] present by simp
  have "\<exists>m'. add_product sample_isoformat 0 arnica init = (True, m')
           \<and> products m' = products init @ [(id' arnica, arnica)]
           \<and> transactions m' = transactions init @
                [JObj [(''timestamp'', JStr (sample_isoformat 0)), (''action'', JStr ''ADD''),
                       (''product_id'', JStr (id' arnica)),
                       (''quantity'', JInt (stock_quantity arnica)), (''reason'', JStr [])]]"
    using add_product_spec [where p = arnica and m = init and fmt = sample_isoformat and now = 0] fresh by simp
  then obtain m' where r: "add_product sample_isoformat 0 arnica init = (True, m')"
    and ps: "products m' = products init @ [(id' arnica, arnica)]"
    and ts: "transactions m' = transactions init @
                [JObj [(''timestamp'', JStr (sample_isoformat 0)), (''action'', JStr ''ADD''),
                       (''product_id'', JStr (id' arnica)),
                       (''quantity'', JInt (stock_quantity arnica)), (''reason'', JStr [])]]"
    by (elim exE conjE)
  have "m' = \<lparr>products = [(''PROD003'', arnica)],
              transactions = [add_transaction ''PROD003'' 25]\<rparr>"
    using ps ts by (simp add: init_def time add_transaction_def arnica_def)
  with r present fresh dup show ?thesis by simp
qed

section \<open>The transaction log\<close>

lemma add_product_prefix:
  "prefix (transactions m) (transactions (snd (add_product fmt now p m)))"
  by (simp add: add_product_def log_transaction_def)

lemma remove_product_prefix:
  "prefix (transactions m) (transactions (snd (remove_product fmt now k m)))"
  by (simp add: remove_product_def log_transaction_def)

lemma update_stock_prefix:
  "prefix (transactions m) (transactions (snd (update_stock fmt now k delta reason m)))"
  by (simp add: update_stock_def log_transaction_def Let_def split: option.splits)

lemma apply_operation_prefix:
  "prefix (transactions m) (transactions (apply_operation fmt x m))"
  by (cases x rule: nonneg_operation.cases)
     (simp_all add: add_product_prefix remove_product_prefix update_stock_prefix)

lemma run_prefix: "prefix (transactions m) (transactions (run fmt ops m))"
proof (induction ops arbitrary: m)
  case Nil
  show ?case by simp
next
  case (Cons x xs)
  have "prefix (transactions m) (transactions (apply_operation fmt x m))"
    by (rule apply_operation_prefix)
  also have "prefix \<dots> (transactions (run fmt xs (apply_operation fmt x m)))"
    by (rule Cons.IH)
  finally show ?case by simp
qed

lemma load_failed_transactions:
  "load_from_file fromiso filename fs m = Some (False, m') \<Longrightarrow>
   transactions m' = transactions m"
  by (auto simp: load_from_file_def Let_def split: option.splits json.splits prod.splits)

lemma load_ok_transactions:
  "load_from_file fromiso filename fs m = Some (True, m') \<Longrightarrow>
   \<exists>kvs. fs filename = Some (JObj kvs) \<and>
     transactions_field (map_of kvs ''transactions'') = Some (transactions m')"
  by (auto simp: load_from_file_def Let_def split: option.splits json.splits prod.splits)

text \<open>
  C6, as the claim states it, fails: a load that succeeds puts the transaction list of
  the document in the place of the log. Here the manager holds two \<^verbatim>\<open>ADD\<close> records,
  the document holds none, and after the load the log is empty.
\<close>

theorem load_replaces_log_counterexample:
  "load_from_file sample_fromisoformat ''inventory.json''
     [''inventory.json'' \<mapsto> empty_document] sample_manager
   = Some (True, \<lparr>products = [], transactions = []\<rparr>)
   \<and> \<not> prefix (transactions sample_manager)
          (transactions \<lparr>products = [], transactions = []\<rparr>)"
  by (simp add: load_from_file_def empty_document_def sample_manager_def)

text \<open>
  C6, amended. \<^verbatim>\<open>add_product\<close>, \<^verbatim>\<open>remove_product\<close> and \<^verbatim>\<open>update_stock\<close>, and any
  sequence of them, only append: the log before is a prefix of the log after. A load
  that returns false leaves the log as it was. A load that returns true replaces the
  log by the transaction list of the document (the empty list when the document has
  none).
\<close>

theorem transaction_log_append_only:
  "prefix (transactions m) (transactions (snd (add_product fmt now p m)))
   \<and> prefix (transactions m) (transactions (snd (remove_product fmt now k m)))
   \<and> prefix (transactions m) (transactions (snd (update_stock fmt now k delta reason m)))
   \<and> prefix (transactions m) (transactions (run fmt ops m))
   \<and> (load_from_file fromiso filename fs m = Some (False, m') \<longrightarrow>
        transactions m' = transactions m)
   \<and> (load_from_file fromiso filename fs m = Some (True, m') \<longrightarrow>
        (\<exists>kvs. fs filename = Some (JObj kvs) \<and>
           transactions_field (map_of kvs ''transactions'') = Some (transactions m')))"
  using add_product_prefix remove_product_prefix update_stock_prefix run_prefix
    load_failed_transactions load_ok_transactions
  by (intro conjI impI) assumption+

theorem transaction_log_append_only_witness:
  "prefix (transactions sample_manager)
     (transactions (run sample_isoformat
        [(0, Update_stock ''PROD003'' (- 20) ''Venta''), (0, Remove_product ''PROD001'')]
        sample_manager))
   \<and> load_from_file sample_fromisoformat ''inventory.json''
         [''inventory.json'' \<mapsto> bad_category_document] sample_manager
       = Some (False, sample_manager\<lparr>products := [(''PROD003'', arnica)]\<rparr>)
   \<and> transactions (sample_manager\<lparr>products := [(''PROD003'', arnica)]\<rparr>)
       = transactions sample_manager
   \<and> load_from_file sample_fromisoformat ''inventory.json''
         [''inventory.json'' \<mapsto> empty_document] sample_manager
       = Some (True, \<lparr>products = [], transactions = []\<rparr>)
   \<and> (\<exists>kvs. [''inventory.json'' \<mapsto> empty_document] ''inventory.json'' = Some (JObj kvs) \<and>
          transactions_field (map_of kvs ''transactions'')
            = Some (transactions \<lparr>products = [], transactions = []\<rparr>))"
proof -
  have failed: "load_from_file sample_fromisoformat ''inventory.json''
         [''inventory.json'' \<mapsto> bad_category_document] sample_manager
       = Some (False, sample_manager\<lparr>products := [(''PROD003'', arnica)]\<rparr>)"
    by (simp add: load_from_file_def bad_category_document_def build_product_def to_dict_def
        sample_manager_def arnica_def sample_isoformat_def sample_fromisoformat_def
        new_year_2026_def all_categories_def field_names_def required_fields_def)
  have loaded: "load_from_file sample_fromisoformat ''inventory.json''
         [''inventory.json'' \<mapsto> empty_document] sample_manager
       = Some (True, \<lparr>products = [], transactions = []\<rparr>)"
    by (simp add: load_from_file_def empty_document_def sample_manager_def)
  note a = transaction_log_append_only [where m = sample_manager and fmt = sample_isoformat
      and ops = "[(0, Update_stock ''PROD003'' (- 20) ''Venta''), (0, Remove_product ''PROD001'')]"
      and fromiso = sample_fromisoformat and filename = "''inventory.json''"
      and fs = "[''inventory.json'' \<mapsto> bad_category_document]"
      and m' = "sample_manager\<lparr>products := [(''PROD003'', arnica)]\<rparr>"]
  note b = transaction_log_append_only [where m = sample_manager
      and fromiso = sample_fromisoformat and filename = "''inventory.json''"
      and fs = "[''inventory.json'' \<mapsto> empty_document]"
      and m' = "\<lparr>products = [], transactions = []\<rparr>"]
  have 1: "prefix (transactions sample_manager)
     (transactions (run sample_isoformat
        [(0, Update_stock ''PROD003'' (- 20) ''Venta''), (0, Remove_product ''PROD001'')]
        sample_manager))"
    by (rule a [THEN conjunct2, THEN conjunct2, THEN conjunct2, THEN conjunct1])
  have 2: "transactions (sample_manager\<lparr>products := [(''PROD003'', arnica)]\<rparr>)
       = transactions sample_manager"
    by (rule a [THEN conjunct2, THEN conjunct2, THEN conjunct2, THEN conjunct2,
          THEN conjunct1, THEN mp, OF failed])
  have 3: "\<exists>kvs. [''inventory.json'' \<mapsto> empty_document] ''inventory.json'' = Some (JObj kvs) \<and>
          transactions_field (map_of kvs ''transactions'')
            = Some (transactions \<lparr>products = [], transactions = []\<rparr>)"
    by (rule b [THEN conjunct2, THEN conjunct2, THEN conjunct2, THEN conjunct2,
          THEN conjunct2, THEN mp, OF loaded])
  show ?thesis
    using 1 2 3 failed loaded by (intro conjI)
qed

section \<open>Save and load\<close>

lemma category_roundtrip: "category_of_value (JStr (category_value c)) = Some c"
  by (cases c) (simp_all add: all_categories_def)

lemma build_product_to_dict:
  assumes "\<And>d. expiration_date p = Some d \<Longrightarrow> fmt d \<noteq> [] \<and> fromiso (fmt d) = Some d"
  shows "build_product fromiso (to_dict fmt p) = Returns p"
proof -
  have e: "expiration_field fromiso
             (Some (case expiration_date p of None \<Rightarrow> JNull | Some d \<Rightarrow> JStr (fmt d)))
           = Returns (expiration_date p)"
    using assms by (cases "expiration_date p") auto
  have n: "number_field (Some (json_of_number (unit_price p))) = Some (unit_price p)"
    by (cases "unit_price p") auto
  have o: "optional_str_field (Some (json_of_optional_str x)) = Some x" for x
    by (cases x) auto
  show ?thesis
    by (simp add: build_product_def to_dict_def category_roundtrip e n o
        field_names_def required_fields_def del: category_of_value.simps)
qed

lemma load_products_to_dict:
  assumes "list_all (\<lambda>kv. fst kv = id' (snd kv)) kvs"
    and "distinct (map fst acc @ map fst kvs)"
    and "\<And>p d. p \<in> snd ` set kvs \<Longrightarrow> expiration_date p = Some d \<Longrightarrow>
           fmt d \<noteq> [] \<and> fromiso (fmt d) = Some d"
  shows "load_products fromiso (map (to_dict fmt) (dict_values kvs)) acc = Some (acc @ kvs, None)"
  using assms
proof (induction kvs arbitrary: acc)
  case Nil
  then show ?case by simp
next
  case (Cons kv kvs)
  obtain k p where kv: "kv = (k, p)" by (cases kv)
  from Cons.prems(1) kv have k: "k = id' p" by simp
  have b: "build_product fromiso (to_dict fmt p) = Returns p"
    by (rule build_product_to_dict) (use Cons.prems(3) kv in force)
  have fresh: "k \<notin> fst ` set acc"
    using Cons.prems(2) kv by auto
  have "load_products fromiso (map (to_dict fmt) (dict_values kvs)) (acc @ [(k, p)])
        = Some ((acc @ [(k, p)]) @ kvs, None)"
  proof (rule Cons.IH)
    show "list_all (\<lambda>kv. fst kv = id' (snd kv)) kvs" using Cons.prems(1) by simp
    show "distinct (map fst (acc @ [(k, p)]) @ map fst kvs)" using Cons.prems(2) kv by auto
    show "\<And>p d. p \<in> snd ` set kvs \<Longrightarrow> expiration_date p = Some d \<Longrightarrow>
           fmt d \<noteq> [] \<and> fromiso (fmt d) = Some d"
      using Cons.prems(3) by auto
  qed
  then show ?case
    using b fresh k kv by (simp add: dict_set_fresh)
qed

text \<open>Every state the operations build has the shape \<open>dict_inv\<close>.\<close>

lemma dict_inv_init: "dict_inv (products init)"
  by (simp add: init_def dict_inv_def)

lemma dict_inv_add_product:
  "dict_inv (products m) \<Longrightarrow> dict_inv (products (snd (add_product fmt now p m)))"
  by (simp add: add_product_def log_transaction_def dict_inv_set)

lemma dict_inv_remove_product:
  "dict_inv (products m) \<Longrightarrow> dict_inv (products (snd (remove_product fmt now k m)))"
  by (simp add: remove_product_def log_transaction_def dict_inv_del)

lemma dict_inv_update_stock:
  "dict_inv (products m) \<Longrightarrow>
   dict_inv (products (snd (update_stock fmt now k delta reason m)))"
  by (auto simp: update_stock_def log_transaction_def Let_def split: option.splits
      intro!: dict_inv_set dest: dict_inv_lookup)

lemma dict_inv_run:
  "dict_inv (products m) \<Longrightarrow> dict_inv (products (run fmt ops m))"
proof (induction ops arbitrary: m)
  case Nil
  then show ?case by simp
next
  case (Cons x xs)
  have "dict_inv (products (apply_operation fmt x m))"
    using Cons.prems
    by (cases x rule: nonneg_operation.cases)
       (simp_all add: dict_inv_add_product dict_inv_remove_product dict_inv_update_stock)
  then show ?case by (simp add: Cons.IH)
qed

lemma dict_inv_load_products:
  "dict_inv acc \<Longrightarrow> load_products fromiso items acc = Some (d, e) \<Longrightarrow> dict_inv d"
proof (induction items arbitrary: acc)
  case Nil
  then show ?case by simp
next
  case (Cons x xs)
  show ?case
  proof (cases "build_product fromiso x")
    case (Returns p)
    with Cons.prems(2)
    have "load_products fromiso xs (dict_set (id' p) p acc) = Some (d, e)"
      by simp
    moreover have "dict_inv (dict_set (id' p) p acc)"
      using Cons.prems(1) by (simp add: dict_inv_set)
    ultimately show ?thesis
      by (rule Cons.IH [rotated])
  next
    case (Raises ex)
    with Cons.prems show ?thesis by simp
  next
    case Unmodelled
    with Cons.prems show ?thesis by simp
  qed
qed

lemma dict_inv_load:
  "dict_inv (products m) \<Longrightarrow> load_from_file fromiso filename fs m = Some (b, m') \<Longrightarrow>
   dict_inv (products m')"
  by (auto simp: load_from_file_def Let_def dict_inv_def[of "[]"]
      split: option.splits json.splits prod.splits dest: dict_inv_load_products[rotated])

text \<open>
  C3. Saving a manager and loading the document that was written gives back the
  manager: the same products under the same keys in the same order, equal in every
  field, and the same transaction list. The manager is any state in which the
  dictionary has each key once and holds every product under its own id, which is every
  state the operations build (lemmas \<open>dict_inv_init\<close> to \<open>dict_inv_load\<close>), and
  \<^verbatim>\<open>fromisoformat\<close> is taken to invert \<^verbatim>\<open>isoformat\<close> on the expiration dates stored,
  \<^verbatim>\<open>isoformat\<close> giving a non-empty string.
\<close>

theorem save_load_roundtrip:
  assumes "dict_inv (products m)"
    and "\<forall>p \<in> set (dict_values (products m)). \<forall>d. expiration_date p = Some d \<longrightarrow>
           isoformat d \<noteq> [] \<and> fromisoformat (isoformat d) = Some d"
  shows "load_from_file fromisoformat filename (save_to_file isoformat filename m fs) fresh
         = Some (True, m)"
proof -
  have "load_products fromisoformat (map (to_dict isoformat) (dict_values (products m))) []
        = Some ([] @ products m, None)"
    by (rule load_products_to_dict) (use assms in \<open>auto simp: dict_inv_def\<close>)
  then show ?thesis
    by (simp add: load_from_file_def save_to_file_def)
qed

theorem save_load_roundtrip_witness:
  "dict_inv (products sample_manager)
   \<and> dict_values (products sample_manager) = [vitamina, arnica]
   \<and> expiration_date vitamina = None
   \<and> expiration_date arnica = Some new_year_2026
   \<and> sample_isoformat new_year_2026 \<noteq> []
   \<and> sample_fromisoformat (sample_isoformat new_year_2026) = Some new_year_2026
   \<and> load_from_file sample_fromisoformat ''inventory.json''
        (save_to_file sample_isoformat ''inventory.json'' sample_manager Map.empty) init
      = Some (True, sample_manager)"
proof -
  have inv: "dict_inv (products sample_manager)"
    by (simp add: dict_inv_def sample_manager_def arnica_def vitamina_def)
  have stored: "dict_values (products sample_manager) = [vitamina, arnica]"
    by (simp add: sample_manager_def)
  have none: "expiration_date vitamina = None"
    by (simp add: vitamina_def)
  have date: "expiration_date arnica = Some new_year_2026"
    by (simp add: arnica_def)
  have render: "sample_isoformat new_year_2026 \<noteq> []"
    by (simp add: sample_isoformat_def)
  have parse: "sample_fromisoformat (sample_isoformat new_year_2026) = Some new_year_2026"
    by (simp add: sample_isoformat_def sample_fromisoformat_def)
  have dates: "\<forall>p \<in> set (dict_values (products sample_manager)).
      \<forall>d. expiration_date p = Some d \<longrightarrow>
         sample_isoformat d \<noteq> [] \<and> sample_fromisoformat (sample_isoformat d) = Some d"
    using none date render parse by (simp add: stored)
  show ?thesis
    using inv stored none date render parse
      save_load_roundtrip [OF inv dates, where filename = "''inventory.json''"
        and fs = Map.empty and fresh = init]
    by (intro conjI)
qed

text \<open>
  C4. The claim fails on the code: \<^verbatim>\<open>self.products = {}\<close> runs before the document
  is read through, and the products are put into the live dictionary one by one.
  Loading a document whose second product has an unknown category tag returns false
  and leaves the manager with the first product of the document only: the product
  \<^verbatim>\<open>PROD001\<close> it held before is gone.
\<close>

theorem load_error_partial_state:
  "load_from_file sample_fromisoformat ''inventory.json''
     [''inventory.json'' \<mapsto> bad_category_document] sample_manager
   = Some (False, sample_manager\<lparr>products := [(''PROD003'', arnica)]\<rparr>)
   \<and> get_product ''PROD001'' sample_manager = Some vitamina
   \<and> get_product ''PROD001'' (sample_manager\<lparr>products := [(''PROD003'', arnica)]\<rparr>) = None"
  by (simp add: load_from_file_def bad_category_document_def build_product_def to_dict_def
      sample_manager_def arnica_def vitamina_def sample_isoformat_def sample_fromisoformat_def
      new_year_2026_def all_categories_def field_names_def required_fields_def get_product_def)

text \<open>
  C8. Loading from a path at which there is no file returns false and leaves the
  manager as it was.
\<close>

theorem load_missing_file:
  "fs filename = None \<Longrightarrow> load_from_file fromisoformat filename fs m = Some (False, m)"
  by (simp add: load_from_file_def)

theorem load_missing_file_witness:
  "Map.empty ''inventory.json'' = (None :: json option)
   \<and> load_from_file sample_fromisoformat ''inventory.json'' Map.empty sample_manager
      = Some (False, sample_manager)"
proof -
  have missing: "Map.empty ''inventory.json'' = (None :: json option)"
    by simp
  show ?thesis
    using missing
      load_missing_file [where fs = Map.empty and filename = "''inventory.json''"
        and fromisoformat = sample_fromisoformat and m = sample_manager, OF missing]
    by (intro conjI)
qed

section \<open>Expiration\<close>

lemma div_eq_iff_int:
  fixes x c n :: int
  assumes "0 < c"
  shows "x div c = n \<longleftrightarrow> n * c \<le> x \<and> x < (n + 1) * c"
proof
  assume "x div c = n"
  moreover have "x = (x div c) * c + x mod c" by simp
  moreover have "0 \<le> x mod c" "x mod c < c" using assms by simp_all
  ultimately show "n * c \<le> x \<and> x < (n + 1) * c"
    by (metis add.commute add_strict_left_mono distrib_right le_add_same_cancel1 mult_1)
next
  assume a: "n * c \<le> x \<and> x < (n + 1) * c"
  have "(x - n * c) div c = 0"
    using a assms by (intro div_pos_pos_trivial) (auto simp: algebra_simps)
  moreover have "(x - n * c) div c = x div c - n"
    using div_mult_self1[of c x "- n"] assms by simp
  ultimately show "x div c = n" by simp
qed

lemma timedelta_days_floor:
  "timedelta_days x = n \<longleftrightarrow> n * day_us \<le> x \<and> x < (n + 1) * day_us"
  unfolding timedelta_days_def by (rule div_eq_iff_int) (simp add: day_us_def)

lemma days_until_expiration_Some:
  "expiration_date p = Some d \<Longrightarrow>
   days_until_expiration now p = Some n \<longleftrightarrow> n * day_us \<le> d - now \<and> d - now < (n + 1) * day_us"
  by (simp add: days_until_expiration_def timedelta_days_floor)

text \<open>
  C7. \<^verbatim>\<open>is_expired\<close> holds exactly when a date is set and \<open>now\<close> is strictly after it.
  \<^verbatim>\<open>days_until_expiration\<close> is null without a date and otherwise the number \<open>n\<close> of
  whole days in the date minus \<open>now\<close>, rounded down: \<open>n\<close> days \<open>\<le>\<close> date \<open>-\<close> now \<open><\<close>
  \<open>n + 1\<close> days, so it is negative after the date. \<^verbatim>\<open>is_near_expiration(threshold)\<close>
  holds exactly when that number is set, above 0 and at most the threshold. A product
  given the date \<open>t - 1\<close> day at time \<open>t\<close> is expired and not near expiration for any
  threshold at every \<open>now\<close> from \<open>t\<close> on; a product given the date \<open>t + 10\<close> days at
  time \<open>t\<close> is near expiration for 30 and not for 5 at every \<open>now\<close> from \<open>t\<close> to less
  than a day later.
\<close>

theorem expiration_predicates:
  "is_expired now p = (\<exists>d. expiration_date p = Some d \<and> d < now)
   \<and> (expiration_date p = None \<longrightarrow> days_until_expiration now p = None)
   \<and> (\<forall>d. expiration_date p = Some d \<longrightarrow>
        (\<exists>n. days_until_expiration now p = Some n \<and>
             n * day_us \<le> d - now \<and> d - now < (n + 1) * day_us))
   \<and> is_near_expiration now p threshold =
        (\<exists>n. days_until_expiration now p = Some n \<and> 0 < n \<and> n \<le> threshold)
   \<and> (expiration_date p = Some (t - day_us) \<and> t \<le> now \<longrightarrow>
        is_expired now p \<and> \<not> is_near_expiration now p threshold)
   \<and> (expiration_date p = Some (t + 10 * day_us) \<and> t \<le> now \<and> now < t + day_us \<longrightarrow>
        is_near_expiration now p 30 \<and> \<not> is_near_expiration now p 5)"
proof (intro conjI impI allI)
  show "is_expired now p = (\<exists>d. expiration_date p = Some d \<and> d < now)"
    by (cases "expiration_date p") (simp_all add: is_expired_def)
  show "days_until_expiration now p = None" if "expiration_date p = None"
    using that by (simp add: days_until_expiration_def)
  show "\<exists>n. days_until_expiration now p = Some n \<and>
             n * day_us \<le> d - now \<and> d - now < (n + 1) * day_us"
    if "expiration_date p = Some d" for d
    using that timedelta_days_floor [of "d - now" "timedelta_days (d - now)"]
    by (simp add: days_until_expiration_def)
  show "is_near_expiration now p threshold =
        (\<exists>n. days_until_expiration now p = Some n \<and> 0 < n \<and> n \<le> threshold)"
    by (cases "days_until_expiration now p") (simp_all add: is_near_expiration_def)
next
  assume a: "expiration_date p = Some (t - day_us) \<and> t \<le> now"
  then show "is_expired now p"
    by (simp add: is_expired_def day_us_def)
  define n where "n = timedelta_days (t - day_us - now)"
  have "n * day_us \<le> t - day_us - now"
    using timedelta_days_floor [of "t - day_us - now" n] by (simp add: n_def)
  with a have "n < 0"
    by (simp add: day_us_def)
  with a show "\<not> is_near_expiration now p threshold"
    by (simp add: is_near_expiration_def days_until_expiration_def n_def)
next
  assume a: "expiration_date p = Some (t + 10 * day_us) \<and> t \<le> now \<and> now < t + day_us"
  define n where "n = timedelta_days (t + 10 * day_us - now)"
  have "n * day_us \<le> t + 10 * day_us - now" "t + 10 * day_us - now < (n + 1) * day_us"
    using timedelta_days_floor [of "t + 10 * day_us - now" n] by (simp_all add: n_def)
  with a have "9 \<le> n" "n \<le> 10"
    by (simp_all add: day_us_def)
  with a show "is_near_expiration now p 30" "\<not> is_near_expiration now p 5"
    by (simp_all add: is_near_expiration_def days_until_expiration_def n_def)
qed

theorem expiration_predicates_witness:
  "expiration_date vitamina = None
   \<and> days_until_expiration 1767225600000000 vitamina = None
   \<and> expiration_date arnica = Some new_year_2026
   \<and> (\<exists>n. days_until_expiration 0 arnica = Some n \<and>
          n * day_us \<le> new_year_2026 - 0 \<and> new_year_2026 - 0 < (n + 1) * day_us)
   \<and> expiration_date arnica = Some (1767312000000000 - day_us)
   \<and> (1767312000000000 :: int) \<le> 1767312000000000
   \<and> is_expired 1767312000000000 arnica
   \<and> \<not> is_near_expiration 1767312000000000 arnica 30
   \<and> expiration_date arnica = Some (1766361600000000 + 10 * day_us)
   \<and> (1766361600000000 :: int) < 1766361600000000 + day_us
   \<and> is_near_expiration 1766361600000000 arnica 30
   \<and> \<not> is_near_expiration 1766361600000000 arnica 5"
proof -
  have none: "expiration_date vitamina = None"
    by (simp add: vitamina_def)
  have past: "expiration_date arnica = Some (1767312000000000 - day_us)
      \<and> (1767312000000000 :: int) \<le> 1767312000000000"
    by (simp add: arnica_def new_year_2026_def day_us_def)
  have ahead: "expiration_date arnica = Some (1766361600000000 + 10 * day_us)
      \<and> (1766361600000000 :: int) \<le> 1766361600000000
      \<and> (1766361600000000 :: int) < 1766361600000000 + day_us"
    by (simp add: arnica_def new_year_2026_def day_us_def)
  have date: "expiration_date arnica = Some new_year_2026"
    by (simp add: arnica_def)
  have 0: "\<exists>n. days_until_expiration 0 arnica = Some n \<and>
          n * day_us \<le> new_year_2026 - 0 \<and> new_year_2026 - 0 < (n + 1) * day_us"
    by (rule expiration_predicates [where p = arnica and now = 0,
          THEN conjunct2, THEN conjunct2, THEN conjunct1, THEN spec, THEN mp, OF date])
  have 1: "days_until_expiration 1767225600000000 vitamina = None"
    by (rule expiration_predicates [where p = vitamina and now = 1767225600000000,
          THEN conjunct2, THEN conjunct1, THEN mp, OF none])
  have 2: "is_expired 1767312000000000 arnica
      \<and> \<not> is_near_expiration 1767312000000000 arnica 30"
    by (rule expiration_predicates [where p = arnica and now = 1767312000000000
          and t = 1767312000000000 and threshold = 30,
          THEN conjunct2, THEN conjunct2, THEN conjunct2, THEN conjunct2, THEN conjunct1,
          THEN mp, OF past])
  have 3: "is_near_expiration 1766361600000000 arnica 30
      \<and> \<not> is_near_expiration 1766361600000000 arnica 5"
    by (rule expiration_predicates [where p = arnica and now = 1766361600000000
          and t = 1766361600000000,
          THEN conjunct2, THEN conjunct2, THEN conjunct2, THEN conjunct2, THEN conjunct2,
          THEN mp, OF ahead])
  show ?thesis
    using none date past ahead 0 1 2 3 by simp
qed

text \<open>
  C10. A product whose expiration date is strictly in the future and less than one day
  away has 0 days until expiration: it is not near expiration for any threshold, it is
  not expired, and neither \<^verbatim>\<open>get_expired_products\<close> nor
  \<^verbatim>\<open>get_near_expiration_products\<close> lists it.
\<close>

theorem last_day_unlisted:
  assumes "expiration_date p = Some d" and "now < d" and "d - now < day_us"
  shows "days_until_expiration now p = Some 0
    \<and> \<not> is_near_expiration now p threshold
    \<and> \<not> is_expired now p
    \<and> p \<notin> set (get_expired_products now m)
    \<and> p \<notin> set (get_near_expiration_products now threshold m)"
proof -
  have days: "days_until_expiration now p = Some 0"
    using assms by (simp add: days_until_expiration_Some)
  then have near: "\<not> is_near_expiration now p threshold"
    by (simp add: is_near_expiration_def)
  have expired: "\<not> is_expired now p"
    using assms by (simp add: is_expired_def)
  show ?thesis
    using days near expired
    by (simp add: get_expired_products_def get_near_expiration_products_def)
qed

theorem last_day_unlisted_witness:
  "expiration_date arnica = Some new_year_2026
   \<and> 1767222000000000 < new_year_2026
   \<and> new_year_2026 - 1767222000000000 < day_us
   \<and> days_until_expiration 1767222000000000 arnica = Some 0
   \<and> \<not> is_near_expiration 1767222000000000 arnica 30
   \<and> \<not> is_expired 1767222000000000 arnica
   \<and> arnica \<notin> set (get_expired_products 1767222000000000 sample_manager)
   \<and> arnica \<notin> set (get_near_expiration_products 1767222000000000 30 sample_manager)"
proof -
  have date: "expiration_date arnica = Some new_year_2026"
    by (simp add: arnica_def)
  have future: "1767222000000000 < new_year_2026"
    by (simp add: new_year_2026_def)
  have close: "new_year_2026 - 1767222000000000 < day_us"
    by (simp add: new_year_2026_def day_us_def)
  show ?thesis
    using date future close
      last_day_unlisted [OF date future close, where threshold = 30 and m = sample_manager]
    by (intro conjI) (elim conjE, assumption)+
qed

section \<open>Search\<close>

lemma str_in_sublist: "str_in q s = sublist q s"
  by (induction s) (simp_all add: sublist_Cons_right)

text \<open>
  C9. \<^verbatim>\<open>search_products(query)\<close> returns, in the order of the dictionary, exactly the
  stored products whose lowered name or lowered description has the lowered query as a
  contiguous part; the empty query returns every stored product. The function reads the
  manager and returns a list only: the manager is not among its results, so no state
  changes.
\<close>

theorem search_products_spec:
  "search_products query m =
     filter (\<lambda>p. (\<exists>pre suf. lower (name p) = pre @ lower query @ suf) \<or>
                 (\<exists>pre suf. lower (description p) = pre @ lower query @ suf))
       (dict_values (products m))
   \<and> search_products [] m = dict_values (products m)"
proof
  show "search_products query m =
     filter (\<lambda>p. (\<exists>pre suf. lower (name p) = pre @ lower query @ suf) \<or>
                 (\<exists>pre suf. lower (description p) = pre @ lower query @ suf))
       (dict_values (products m))"
    by (simp add: search_products_def str_in_sublist sublist_def Let_def)
  show "search_products [] m = dict_values (products m)"
    by (simp add: search_products_def str_in_sublist lower_def)
qed

theorem search_products_spec_witness:
  "search_products [] sample_manager = [vitamina, arnica]"
  using search_products_spec [of "[]" sample_manager, THEN conjunct2]
  by (simp add: sample_manager_def)

lemma search_products_example:
  "search_products ''VITAMINA'' sample_manager = [vitamina]
   \<and> search_products ''globulos'' sample_manager = [arnica]
   \<and> search_products ''aspirina'' sample_manager = []"
  by code_simp

end
